theory Spec2Isabelle
  imports Complex_Main
begin

section \<open>JavaScript values and the operators the translator applies to them\<close>

text \<open>
  The service reads wire data with \<^verbatim>\<open>JSON.parse\<close> and probes it by property access and
  truthiness, with every wire value typed \<^verbatim>\<open>any\<close>. The values are modelled as they are at
  run time: the JSON values together with \<^verbatim>\<open>undefined\<close>, the result of reading a missing
  property. Characters are code units below 256; numbers are the integers (token counts and
  tool-call positions), so a number with a fraction or an exponent is outside the model.
\<close>

datatype js =
    JUndefined
  | JNull
  | JBool bool
  | JNum int
  | JStr string
  | JArr "js list"
  | JObj "(string \<times> js) list"

text \<open>\<^verbatim>\<open>if (v)\<close>, \<^verbatim>\<open>!v\<close>, \<^verbatim>\<open>v || d\<close>: ToBoolean.\<close>

fun truthy :: "js \<Rightarrow> bool" where
  "truthy JUndefined = False"
| "truthy JNull = False"
| "truthy (JBool b) = b"
| "truthy (JNum n) = (n \<noteq> 0)"
| "truthy (JStr s) = (s \<noteq> [])"
| "truthy (JArr xs) = True"
| "truthy (JObj kvs) = True"

text \<open>\<^verbatim>\<open>v === undefined || v === null\<close>, the test behind \<^verbatim>\<open>?.\<close> and \<^verbatim>\<open>??\<close>.\<close>

fun nullish :: "js \<Rightarrow> bool" where
  "nullish JUndefined = True"
| "nullish JNull = True"
| "nullish v = False"

text \<open>\<^verbatim>\<open>a || b\<close> and \<^verbatim>\<open>a ?? b\<close> on values.\<close>

definition js_or :: "js \<Rightarrow> js \<Rightarrow> js" where
  "js_or a b = (if truthy a then a else b)"

definition js_coalesce :: "js \<Rightarrow> js \<Rightarrow> js" where
  "js_coalesce a b = (if nullish a then b else a)"

text \<open>
  An object built by \<^verbatim>\<open>JSON.parse\<close> is its members in source order; of two members with
  the same key the later one is the property's value.
\<close>

definition lookup :: "(string \<times> js) list \<Rightarrow> string \<Rightarrow> js" where
  "lookup kvs k = (case map_of (rev kvs) k of None \<Rightarrow> JUndefined | Some v \<Rightarrow> v)"

text \<open>
  \<^verbatim>\<open>v.k\<close> for the property names the service reads (\<^verbatim>\<open>choices\<close>, \<^verbatim>\<open>usage\<close>, \<^verbatim>\<open>delta\<close>,
  \<^verbatim>\<open>content\<close>, \<^verbatim>\<open>tool_calls\<close>, \<^verbatim>\<open>index\<close>, \<^verbatim>\<open>id\<close>, \<^verbatim>\<open>function\<close>, \<^verbatim>\<open>name\<close>,
  \<^verbatim>\<open>arguments\<close>, \<^verbatim>\<open>finish_reason\<close>, \<^verbatim>\<open>message\<close>, \<^verbatim>\<open>prompt_tokens\<close>,
  \<^verbatim>\<open>completion_tokens\<close>, \<^verbatim>\<open>total_tokens\<close>): none of them is a built-in property of an
  array, a string, a number or a boolean, so only an object can hold one. On \<^verbatim>\<open>null\<close> and
  \<^verbatim>\<open>undefined\<close> the access throws a TypeError: every caller below tests for that first.
\<close>

fun dot :: "js \<Rightarrow> string \<Rightarrow> js" where
  "dot (JObj kvs) k = lookup kvs k"
| "dot v k = JUndefined"

text \<open>\<^verbatim>\<open>v?.k\<close>.\<close>

definition dotq :: "js \<Rightarrow> string \<Rightarrow> js" where
  "dotq v k = (if nullish v then JUndefined else dot v k)"

text \<open>\<^verbatim>\<open>v?.[0]\<close>: the first element of an array, the first character of a string,
  the property \<^verbatim>\<open>"0"\<close> of an object.\<close>

fun index0 :: "js \<Rightarrow> js" where
  "index0 (JArr xs) = (case xs of [] \<Rightarrow> JUndefined | x # _ \<Rightarrow> x)"
| "index0 (JStr s) = (case s of [] \<Rightarrow> JUndefined | c # _ \<Rightarrow> JStr [c])"
| "index0 (JObj kvs) = lookup kvs ''0''"
| "index0 v = JUndefined"

text \<open>\<^verbatim>\<open>Array.prototype.join\<close> on strings.\<close>

fun join :: "string \<Rightarrow> string list \<Rightarrow> string" where
  "join sep [] = []"
| "join sep [x] = x"
| "join sep (x # y # ys) = x @ sep @ join sep (y # ys)"

text \<open>Decimal digits of a number, as the template literal and \<^verbatim>\<open>+=\<close> print it.\<close>

fun dec_nat :: "nat \<Rightarrow> string" where
  "dec_nat n = (if n < 10 then [char_of (48 + n)] else dec_nat (n div 10) @ [char_of (48 + n mod 10)])"

definition dec_int :: "int \<Rightarrow> string" where
  "dec_int i = (if i < 0 then CHR ''-'' # dec_nat (nat (- i)) else dec_nat (nat i))"

text \<open>ToString, as applied by a template literal and by \<^verbatim>\<open>+=\<close> on a string.\<close>

fun to_string :: "js \<Rightarrow> string" where
  "to_string JUndefined = ''undefined''"
| "to_string JNull = ''null''"
| "to_string (JBool b) = (if b then ''true'' else ''false'')"
| "to_string (JNum n) = dec_int n"
| "to_string (JStr s) = s"
| "to_string (JArr xs) = join '','' (map (\<lambda>x. if nullish x then [] else to_string x) xs)"
| "to_string (JObj kvs) = ''[object Object]''"

text \<open>
  The values a \<^verbatim>\<open>for (const x of v)\<close> loop visits: the elements of an array, the characters
  of a string; anything else is not iterable and the loop throws a TypeError (\<open>None\<close>).
\<close>

fun iterate :: "js \<Rightarrow> js list option" where
  "iterate (JArr xs) = Some xs"
| "iterate (JStr s) = Some (map (\<lambda>c. JStr [c]) s)"
| "iterate v = None"

text \<open>\<^verbatim>\<open>String.prototype.split('\n')\<close>: never empty, the last fragment is what follows
  the last newline.\<close>

fun split_nl :: "string \<Rightarrow> string list" where
  "split_nl [] = [[]]"
| "split_nl (c # cs) =
     (if c = CHR 0x0A then [] # split_nl cs
      else (case split_nl cs of [] \<Rightarrow> [[c]] | l # ls \<Rightarrow> (c # l) # ls))"

text \<open>\<^verbatim>\<open>String.prototype.trim\<close>: the white space and line terminators below 256.\<close>

definition is_space :: "char \<Rightarrow> bool" where
  "is_space c = (c \<in> set [CHR 0x09, CHR 0x0A, CHR 0x0B, CHR 0x0C, CHR 0x0D, CHR 0x20, CHR 0xA0])"

definition trim :: "string \<Rightarrow> string" where
  "trim s = rev (dropWhile is_space (rev (dropWhile is_space s)))"

text \<open>\<^verbatim>\<open>s.startsWith(p)\<close> and \<^verbatim>\<open>s.includes(p)\<close>.\<close>

definition startsWith :: "string \<Rightarrow> string \<Rightarrow> bool" where
  "startsWith s p = (take (length p) s = p)"


section \<open>A reader for JSON text\<close>

text \<open>
  \<^verbatim>\<open>JSON.parse\<close> belongs to the JavaScript runtime, and the translators take it as a
  parameter. To run them on concrete wire text, \<open>json_parse\<close> reads the JSON grammar with
  integer numbers and without \<^verbatim>\<open>\u\<close> escapes; \<open>None\<close> is the SyntaxError, and also the
  answer to a text with a fraction, an exponent or a \<^verbatim>\<open>\u\<close> escape, which the examples avoid.
  The first argument of the mutually recursive readers bounds the nesting and the number of
  members read; \<open>json_parse\<close> sets it from the length of the text.
\<close>

definition json_ws :: "char \<Rightarrow> bool" where
  "json_ws c = (c \<in> set [CHR 0x20, CHR 0x09, CHR 0x0A, CHR 0x0D])"

definition is_digit :: "char \<Rightarrow> bool" where
  "is_digit c = (48 \<le> (of_char c :: nat) \<and> (of_char c :: nat) \<le> 57)"

definition digit_val :: "char \<Rightarrow> nat" where
  "digit_val c = of_char c - 48"

definition digits_val :: "string \<Rightarrow> nat" where
  "digits_val ds = foldl (\<lambda>a c. 10 * a + digit_val c) 0 ds"

text \<open>The characters of a string literal after its opening quote, up to the closing one.\<close>

fun read_string :: "string \<Rightarrow> (string \<times> string) option" where
  "read_string [] = None"
| "read_string [c] = (if c = CHR 0x22 then Some ([], []) else None)"
| "read_string (c # d # cs) =
     (if c = CHR 0x22 then Some ([], d # cs)
      else if c = CHR 0x5C then
        (let e = (if d = CHR 0x22 then Some (CHR 0x22)
                  else if d = CHR 0x5C then Some (CHR 0x5C)
                  else if d = CHR ''/'' then Some (CHR ''/'')
                  else if d = CHR ''n'' then Some (CHR 0x0A)
                  else if d = CHR ''t'' then Some (CHR 0x09)
                  else if d = CHR ''r'' then Some (CHR 0x0D)
                  else if d = CHR ''b'' then Some (CHR 0x08)
                  else if d = CHR ''f'' then Some (CHR 0x0C)
                  else None)
         in case e of
              None \<Rightarrow> None
            | Some x \<Rightarrow> (case read_string cs of None \<Rightarrow> None | Some (s, r) \<Rightarrow> Some (x # s, r)))
      else if of_char c < (32 :: nat) then None
      else (case read_string (d # cs) of None \<Rightarrow> None | Some (s, r) \<Rightarrow> Some (c # s, r)))"

text \<open>An integer literal: an optional minus sign, then \<^verbatim>\<open>0\<close> or digits without a
  leading zero; a fraction or an exponent after it is refused.\<close>

definition read_number :: "string \<Rightarrow> (js \<times> string) option" where
  "read_number s =
     (let neg = (s \<noteq> [] \<and> hd s = CHR ''-'');
          body = (if neg then tl s else s);
          ds = takeWhile is_digit body;
          r = dropWhile is_digit body
      in if ds = [] \<or> (length ds > 1 \<and> hd ds = CHR ''0'') then None
         else if r \<noteq> [] \<and> hd r \<in> set [CHR ''.'', CHR ''e'', CHR ''E''] then None
         else Some (JNum (if neg then - int (digits_val ds) else int (digits_val ds)), r))"

fun read_value :: "nat \<Rightarrow> string \<Rightarrow> (js \<times> string) option"
  and read_elements :: "nat \<Rightarrow> string \<Rightarrow> (js list \<times> string) option"
  and read_members :: "nat \<Rightarrow> string \<Rightarrow> ((string \<times> js) list \<times> string) option" where
  "read_value 0 s = None"
| "read_value (Suc n) s =
     (case dropWhile json_ws s of
        [] \<Rightarrow> None
      | c # cs \<Rightarrow>
          if c = CHR 0x22 then
            (case read_string cs of None \<Rightarrow> None | Some (str, r) \<Rightarrow> Some (JStr str, r))
          else if c = CHR ''['' then
            (case dropWhile json_ws cs of
               [] \<Rightarrow> None
             | d # ds \<Rightarrow> if d = CHR '']'' then Some (JArr [], ds)
                         else (case read_elements n cs of
                                 None \<Rightarrow> None
                               | Some (xs, r) \<Rightarrow> Some (JArr xs, r)))
          else if c = CHR ''{'' then
            (case dropWhile json_ws cs of
               [] \<Rightarrow> None
             | d # ds \<Rightarrow> if d = CHR ''}'' then Some (JObj [], ds)
                         else (case read_members n cs of
                                 None \<Rightarrow> None
                               | Some (kvs, r) \<Rightarrow> Some (JObj kvs, r)))
          else if startsWith (c # cs) ''true'' then Some (JBool True, drop 4 (c # cs))
          else if startsWith (c # cs) ''false'' then Some (JBool False, drop 5 (c # cs))
          else if startsWith (c # cs) ''null'' then Some (JNull, drop 4 (c # cs))
          else read_number (c # cs))"
| "read_elements 0 s = None"
| "read_elements (Suc n) s =
     (case read_value n s of
        None \<Rightarrow> None
      | Some (x, r) \<Rightarrow>
          (case dropWhile json_ws r of
             [] \<Rightarrow> None
           | c # cs \<Rightarrow> if c = CHR '']'' then Some ([x], cs)
                       else if c = CHR '','' then
                         (case read_elements n cs of
                            None \<Rightarrow> None
                          | Some (xs, r') \<Rightarrow> Some (x # xs, r'))
                       else None))"
| "read_members 0 s = None"
| "read_members (Suc n) s =
     (case dropWhile json_ws s of
        [] \<Rightarrow> None
      | q # qs \<Rightarrow>
          if q \<noteq> CHR 0x22 then None
          else (case read_string qs of
                  None \<Rightarrow> None
                | Some (k, r) \<Rightarrow>
                    (case dropWhile json_ws r of
                       [] \<Rightarrow> None
                     | c # cs \<Rightarrow>
                         if c \<noteq> CHR '':'' then None
                         else (case read_value n cs of
                                 None \<Rightarrow> None
                               | Some (v, r1) \<Rightarrow>
                                   (case dropWhile json_ws r1 of
                                      [] \<Rightarrow> None
                                    | e # es \<Rightarrow>
                                        if e = CHR ''}'' then Some ([(k, v)], es)
                                        else if e = CHR '','' then
                                          (case read_members n es of
                                             None \<Rightarrow> None
                                           | Some (kvs, r2) \<Rightarrow> Some ((k, v) # kvs, r2))
                                        else None)))))"

definition json_parse :: "string \<Rightarrow> js option" where
  "json_parse s =
     (case read_value (Suc (length s)) s of
        None \<Rightarrow> None
      | Some (v, r) \<Rightarrow> if dropWhile json_ws r = [] then Some v else None)"

section \<open>The streaming translator: \<^verbatim>\<open>createBedrockStreamFromOpenAI\<close>\<close>

subsection \<open>Events and session state\<close>

datatype block_start =
    StartText string
  | StartToolUse js js

datatype block_delta =
    DeltaText js
  | DeltaToolUse string

text \<open>
  The events the iterator yields. A content-block event carries its payload and its
  \<^verbatim>\<open>contentBlockIndex\<close>; \<open>Metadata\<close> carries \<^verbatim>\<open>usage.inputTokens\<close>,
  \<^verbatim>\<open>usage.outputTokens\<close> and \<^verbatim>\<open>metrics.latencyMs\<close>.
\<close>

datatype event =
    MessageStart string
  | ContentBlockStart block_start int
  | ContentBlockDelta block_delta int
  | ContentBlockStop int
  | MessageStop string
  | Metadata js js int

text \<open>One entry of \<^verbatim>\<open>toolCallAccumulator\<close>: \<^verbatim>\<open>{ id, name, arguments }\<close>.\<close>

record tool_acc =
  acc_id :: js
  acc_name :: js
  acc_arguments :: string

text \<open>
  The variables the iterator closes over. \<^verbatim>\<open>toolCallAccumulator\<close> is a \<^verbatim>\<open>Map\<close>, which
  iterates in insertion order: an association list, new keys appended. \<open>clockReads\<close> is not a
  variable of the source: it counts the calls of \<^verbatim>\<open>Date.now()\<close> so far, the n-th of which
  returns \<open>now n\<close>. (\<^verbatim>\<open>currentToolCallIndex\<close> is never read and is left out.)
\<close>

record session =
  done_flag :: bool
  buffer :: string
  contentBlockIndex :: int
  toolCallAccumulator :: "(js \<times> tool_acc) list"
  messageStartSent :: bool
  currentContentBlockOpen :: bool
  inputTokens :: js
  outputTokens :: js
  pendingEvents :: "event list"
  clockReads :: nat

definition init_session :: session where
  "init_session = \<lparr> done_flag = False, buffer = [], contentBlockIndex = 0,
     toolCallAccumulator = [], messageStartSent = False, currentContentBlockOpen = False,
     inputTokens = JNum 0, outputTokens = JNum 0, pendingEvents = [], clockReads = 0 \<rparr>"

definition push :: "event \<Rightarrow> session \<Rightarrow> session" where
  "push e s = s\<lparr> pendingEvents := pendingEvents s @ [e] \<rparr>"

subsection \<open>Flushing the accumulated tool calls\<close>

text \<open>The body of \<^verbatim>\<open>for (const [idx, tool] of toolCallAccumulator)\<close>, the same in both
  places where the source has it.\<close>

definition flush_tool :: "session \<Rightarrow> js \<times> tool_acc \<Rightarrow> session" where
  "flush_tool s entry =
     (let tool = snd entry;
          s1 = push (ContentBlockStart (StartToolUse (acc_id tool) (acc_name tool)) (contentBlockIndex s)) s;
          s2 = (if acc_arguments tool \<noteq> []
                then push (ContentBlockDelta (DeltaToolUse (acc_arguments tool)) (contentBlockIndex s1)) s1
                else s1);
          s3 = push (ContentBlockStop (contentBlockIndex s2)) s2
      in s3\<lparr> contentBlockIndex := contentBlockIndex s3 + 1 \<rparr>)"

definition flush_tools :: "session \<Rightarrow> session" where
  "flush_tools s = (foldl flush_tool s (toolCallAccumulator s))\<lparr> toolCallAccumulator := [] \<rparr>"

subsection \<open>The end of the byte stream (\<^verbatim>\<open>readDone\<close>)\<close>

definition end_of_stream :: "session \<Rightarrow> session" where
  "end_of_stream s =
     (let s1 = s\<lparr> done_flag := True \<rparr>;
          s2 = (if currentContentBlockOpen s1
                then (push (ContentBlockStop (contentBlockIndex s1 - 1)) s1)\<lparr> currentContentBlockOpen := False \<rparr>
                else s1);
          s3 = flush_tools s2;
          s4 = push (MessageStop ''end_turn'') s3
      in push (Metadata (inputTokens s4) (outputTokens s4) 0) s4)"

subsection \<open>One parsed chunk\<close>

text \<open>\<^verbatim>\<open>if (parsed.usage) { inputTokens = ... || 0; outputTokens = ... || 0 }\<close>\<close>

definition track_usage :: "session \<Rightarrow> js \<Rightarrow> session" where
  "track_usage s parsed =
     (let usage = dot parsed ''usage''
      in if truthy usage
         then s\<lparr> inputTokens := js_or (dot usage ''prompt_tokens'') (JNum 0),
                 outputTokens := js_or (dot usage ''completion_tokens'') (JNum 0) \<rparr>
         else s)"

definition send_message_start :: "session \<Rightarrow> session" where
  "send_message_start s =
     (if \<not> messageStartSent s
      then (push (MessageStart ''assistant'') s)\<lparr> messageStartSent := True \<rparr>
      else s)"

text \<open>\<^verbatim>\<open>if (delta.content !== undefined && delta.content !== null) { ... }\<close>\<close>

definition handle_content :: "session \<Rightarrow> js \<Rightarrow> session" where
  "handle_content s delta =
     (let content = dot delta ''content''
      in if content \<noteq> JUndefined \<and> content \<noteq> JNull
         then (let s1 = (if \<not> currentContentBlockOpen s
                         then (push (ContentBlockStart (StartText []) (contentBlockIndex s)) s)
                                \<lparr> currentContentBlockOpen := True \<rparr>
                         else s)
               in push (ContentBlockDelta (DeltaText content) (contentBlockIndex s1)) s1)
         else s)"

text \<open>\<^verbatim>\<open>if (currentContentBlockOpen) { push stop; contentBlockIndex++; ... = false }\<close>,
  as written before the tool calls and at a finish reason.\<close>

definition close_text_block :: "session \<Rightarrow> session" where
  "close_text_block s =
     (if currentContentBlockOpen s
      then (push (ContentBlockStop (contentBlockIndex s)) s)
             \<lparr> contentBlockIndex := contentBlockIndex s + 1, currentContentBlockOpen := False \<rparr>
      else s)"

text \<open>
  \<^verbatim>\<open>Map.has\<close> and \<^verbatim>\<open>Map.get\<close> compare keys by SameValueZero: primitives by value, an
  object or array only with itself. A key read from a parsed chunk that is an object or an
  array is a fresh one, so it is never found.
\<close>

fun primitive :: "js \<Rightarrow> bool" where
  "primitive (JArr xs) = False"
| "primitive (JObj kvs) = False"
| "primitive v = True"

fun acc_get :: "(js \<times> tool_acc) list \<Rightarrow> js \<Rightarrow> tool_acc option" where
  "acc_get [] k = None"
| "acc_get ((k', a) # rest) k = (if primitive k \<and> k' = k then Some a else acc_get rest k)"

fun acc_put :: "(js \<times> tool_acc) list \<Rightarrow> js \<Rightarrow> tool_acc \<Rightarrow> (js \<times> tool_acc) list" where
  "acc_put [] k a = [(k, a)]"
| "acc_put ((k', a') # rest) k a =
     (if primitive k \<and> k' = k then (k', a) # rest else (k', a') # acc_put rest k a)"

text \<open>
  The body of \<^verbatim>\<open>for (const tc of delta.tool_calls)\<close> for a \<open>tc\<close> that is neither
  \<^verbatim>\<open>null\<close> nor \<^verbatim>\<open>undefined\<close>. The entry is created on first sight, then its fields are
  updated in place; the model writes the updated entry back at its position.
\<close>

definition accumulate :: "(nat \<Rightarrow> nat) \<Rightarrow> session \<Rightarrow> js \<Rightarrow> session" where
  "accumulate now s tc =
     (let tcIndex = js_coalesce (dot tc ''index'') (JNum 0);
          fn = dot tc ''function'';
          found = acc_get (toolCallAccumulator s) tcIndex;
          reads = (if found = None \<and> \<not> truthy (dot tc ''id'') then clockReads s + 1 else clockReads s);
          acc0 = (case found of
                    Some a \<Rightarrow> a
                  | None \<Rightarrow> \<lparr> acc_id = js_or (dot tc ''id'')
                                 (JStr (''call_'' @ dec_nat (now (clockReads s)) @ ''_'' @ to_string tcIndex)),
                               acc_name = js_or (dotq fn ''name'') (JStr []),
                               acc_arguments = [] \<rparr>);
          acc1 = (if truthy (dot tc ''id'') then acc0\<lparr> acc_id := dot tc ''id'' \<rparr> else acc0);
          acc2 = (if truthy (dotq fn ''name'') then acc1\<lparr> acc_name := dotq fn ''name'' \<rparr> else acc1);
          acc3 = (if truthy (dotq fn ''arguments'')
                  then acc2\<lparr> acc_arguments := acc_arguments acc2 @ to_string (dot fn ''arguments'') \<rparr>
                  else acc2)
      in s\<lparr> toolCallAccumulator := acc_put (toolCallAccumulator s) tcIndex acc3, clockReads := reads \<rparr>)"

text \<open>The loop over the entries; reading \<^verbatim>\<open>tc.index\<close> of a \<^verbatim>\<open>null\<close> entry throws, which
  leaves the loop with the entries before it accumulated (\<open>Inl\<close>).\<close>

fun tool_calls_loop :: "(nat \<Rightarrow> nat) \<Rightarrow> session \<Rightarrow> js list \<Rightarrow> session + session" where
  "tool_calls_loop now s [] = Inr s"
| "tool_calls_loop now s (tc # tcs) =
     (if nullish tc then Inl s else tool_calls_loop now (accumulate now s tc) tcs)"

text \<open>\<^verbatim>\<open>if (delta.tool_calls) { close the text block; for (const tc of ...) ... }\<close>\<close>

definition handle_tool_calls :: "(nat \<Rightarrow> nat) \<Rightarrow> session \<Rightarrow> js \<Rightarrow> session + session" where
  "handle_tool_calls now s delta =
     (let tool_calls = dot delta ''tool_calls''
      in if truthy tool_calls
         then (let s1 = close_text_block s
               in case iterate tool_calls of
                    None \<Rightarrow> Inl s1
                  | Some tcs \<Rightarrow> tool_calls_loop now s1 tcs)
         else Inr s)"

text \<open>\<^verbatim>\<open>if (choice.finish_reason) { ... done = true }\<close>\<close>

definition handle_finish :: "session \<Rightarrow> js \<Rightarrow> session" where
  "handle_finish s choice =
     (let finish_reason = dot choice ''finish_reason''
      in if truthy finish_reason
         then (let s1 = close_text_block s;
                   s2 = flush_tools s1;
                   stopReason = (if finish_reason = JStr ''tool_calls'' then ''tool_use''
                                 else if finish_reason = JStr ''length'' then ''max_tokens''
                                 else ''end_turn'');
                   s3 = push (MessageStop stopReason) s2;
                   s4 = push (Metadata (inputTokens s3) (outputTokens s3) 0) s3
               in s4\<lparr> done_flag := True \<rparr>)
         else s)"

text \<open>
  The body of the \<^verbatim>\<open>try\<close> after \<^verbatim>\<open>JSON.parse\<close> has returned \<open>parsed\<close>. A TypeError
  thrown on the way is caught by the \<^verbatim>\<open>catch\<close>, which only logs: the rest of the body is
  skipped and what was assigned before stays.
\<close>

definition process_parsed :: "(nat \<Rightarrow> nat) \<Rightarrow> session \<Rightarrow> js \<Rightarrow> session" where
  "process_parsed now s parsed =
     (if nullish parsed then s
      else (let choice = index0 (dot parsed ''choices'')
            in if \<not> truthy choice then s
               else (let s1 = track_usage s parsed;
                         delta = dot choice ''delta''
                     in if \<not> truthy delta then s1
                        else (let s2 = send_message_start s1;
                                  s3 = handle_content s2 delta
                              in case handle_tool_calls now s3 delta of
                                   Inl s4 \<Rightarrow> s4
                                 | Inr s4 \<Rightarrow> handle_finish s4 choice))))"

subsection \<open>Lines, chunks and the iterator\<close>

text \<open>
  \<open>parse\<close> is \<^verbatim>\<open>JSON.parse\<close>: \<open>None\<close> where it throws a SyntaxError. It is a parameter
  of the model, which therefore holds for every parser.
\<close>

definition process_line :: "(string \<Rightarrow> js option) \<Rightarrow> (nat \<Rightarrow> nat) \<Rightarrow> session \<Rightarrow> string \<Rightarrow> session" where
  "process_line parse now s line =
     (let trimmed = trim line
      in if trimmed = [] \<or> \<not> startsWith trimmed ''data: '' then s
         else (let data = drop 6 trimmed
               in if data = ''[DONE]'' then s
                  else (case parse data of
                          None \<Rightarrow> s
                        | Some parsed \<Rightarrow> process_parsed now s parsed)))"

text \<open>One chunk returned by \<^verbatim>\<open>reader.read()\<close>, decoded: append, split, keep the last
  fragment, process the complete lines in order.\<close>

definition on_chunk :: "(string \<Rightarrow> js option) \<Rightarrow> (nat \<Rightarrow> nat) \<Rightarrow> session \<Rightarrow> string \<Rightarrow> session" where
  "on_chunk parse now s chunk =
     (let lines = split_nl (buffer s @ chunk);
          s1 = s\<lparr> buffer := last lines \<rparr>
      in foldl (process_line parse now) s1 (butlast lines))"

text \<open>\<^verbatim>\<open>return { done: false, value: pendingEvents.shift() }\<close>, for a non-empty queue.\<close>

definition shift :: "session \<Rightarrow> event option \<times> session" where
  "shift s = (case pendingEvents s of
                [] \<Rightarrow> (None, s)
              | e # es \<Rightarrow> (Some e, s\<lparr> pendingEvents := es \<rparr>))"

text \<open>
  The \<^verbatim>\<open>while (true)\<close> loop of \<^verbatim>\<open>next()\<close>. The reader is the list of chunks it has yet to
  return; at the empty list \<^verbatim>\<open>read()\<close> signals completion. The result is the event
  returned (\<open>None\<close> for \<^verbatim>\<open>{ done: true }\<close>), the session and the reader afterwards.
\<close>

fun read_loop :: "(string \<Rightarrow> js option) \<Rightarrow> (nat \<Rightarrow> nat) \<Rightarrow> session \<Rightarrow> string list
    \<Rightarrow> event option \<times> session \<times> string list" where
  "read_loop parse now s [] = (let (r, s') = shift (end_of_stream s) in (r, s', []))"
| "read_loop parse now s (chunk # rest) =
     (let s1 = on_chunk parse now s chunk
      in if pendingEvents s1 \<noteq> [] then (let (r, s') = shift s1 in (r, s', rest))
         else read_loop parse now s1 rest)"

definition next_event :: "(string \<Rightarrow> js option) \<Rightarrow> (nat \<Rightarrow> nat) \<Rightarrow> session \<Rightarrow> string list
    \<Rightarrow> event option \<times> session \<times> string list" where
  "next_event parse now s chunks =
     (if pendingEvents s \<noteq> [] then (let (r, s') = shift s in (r, s', chunks))
      else if done_flag s then (None, s, chunks)
      else read_loop parse now s chunks)"

text \<open>
  \<^verbatim>\<open>for await (const event of stream)\<close>: the events a consumer receives by calling
  \<^verbatim>\<open>next()\<close> until it answers \<^verbatim>\<open>{ done: true }\<close>.
\<close>

function collect :: "(string \<Rightarrow> js option) \<Rightarrow> (nat \<Rightarrow> nat) \<Rightarrow> session \<Rightarrow> string list \<Rightarrow> event list" where
  "collect parse now s chunks =
     (case next_event parse now s chunks of
        (None, s', chunks') \<Rightarrow> []
      | (Some e, s', chunks') \<Rightarrow> e # collect parse now s' chunks')"
  by pat_completeness auto

text \<open>
  The same session without the queue being emptied between reads: the chunks are processed
  until one sets \<^verbatim>\<open>done\<close> or the reader is exhausted, and the events stay in
  \<open>pendingEvents\<close>. Lemma \<open>collect_init\<close> shows that the consumer sees exactly these.
\<close>

fun feed :: "(string \<Rightarrow> js option) \<Rightarrow> (nat \<Rightarrow> nat) \<Rightarrow> session \<Rightarrow> string list \<Rightarrow> session" where
  "feed parse now s [] = end_of_stream s"
| "feed parse now s (chunk # rest) =
     (let s1 = on_chunk parse now s chunk
      in if done_flag s1 then s1 else feed parse now s1 rest)"

text \<open>The session with events put in front of its queue, and the condition under which the
  next \<^verbatim>\<open>next()\<close> of a finished session still has an event to deliver.\<close>

definition prepend :: "event list \<Rightarrow> session \<Rightarrow> session" where
  "prepend p s = s\<lparr> pendingEvents := p @ pendingEvents s \<rparr>"

definition settled :: "session \<Rightarrow> bool" where
  "settled s = (done_flag s \<longrightarrow> pendingEvents s \<noteq> [])"

section \<open>The non-streaming translator: \<^verbatim>\<open>convertNonStreamingResponse\<close>\<close>








section \<open>The outbound converter: \<^verbatim>\<open>messageConverter\<close>\<close>

subsection \<open>Internal messages and wire messages\<close>

text \<open>
  The Converse types are unions with one member set, which the source probes with
  \<^verbatim>\<open>'text' in block\<close>; members the converter does not read (images, documents, cache points)
  are the constructors \<open>ResultOther\<close>, \<open>OtherBlock\<close>, \<open>SystemOther\<close> and \<open>OtherTool\<close>.
  An optional field is an \<open>option\<close>, \<open>None\<close> for \<^verbatim>\<open>undefined\<close>; \<open>tu_input\<close> is a document
  value, \<open>JUndefined\<close> when absent.
\<close>

datatype tool_result_content =
    ResultText string
  | ResultJson js
  | ResultOther

record tool_result =
  tr_toolUseId :: "string option"
  tr_content :: "tool_result_content list option"

record tool_use =
  tu_toolUseId :: "string option"
  tu_name :: "string option"
  tu_input :: js

datatype content_block =
    Text string
  | ToolUse tool_use
  | ToolResult tool_result
  | OtherBlock

datatype role = User | Assistant

record message =
  msg_role :: "role option"
  msg_content :: "content_block list option"

text \<open>\<^verbatim>\<open>OpenAIToolCall\<close>, with \<^verbatim>\<open>function.name\<close> and \<^verbatim>\<open>function.arguments\<close> as
  \<open>fn_name\<close> and \<open>fn_arguments\<close>.\<close>

record OpenAIToolCall =
  call_id :: string
  call_type :: string
  fn_name :: string
  fn_arguments :: string

text \<open>\<^verbatim>\<open>OpenAIMessage\<close>: \<open>content = None\<close> is \<^verbatim>\<open>null\<close>; an absent \<^verbatim>\<open>tool_calls\<close> or
  \<^verbatim>\<open>tool_call_id\<close> is \<open>None\<close>.\<close>

record OpenAIMessage =
  role :: string
  content :: "string option"
  tool_calls :: "OpenAIToolCall list option"
  tool_call_id :: "string option"

definition newline :: string where
  "newline = [CHR 0x0A]"

subsection \<open>\<^verbatim>\<open>convertMessagesToOpenAI\<close>\<close>

text \<open>\<open>stringify\<close> is \<^verbatim>\<open>JSON.stringify\<close>, a parameter like \<open>parse\<close>.\<close>

fun toolResult_of :: "content_block \<Rightarrow> tool_result option" where
  "toolResult_of (ToolResult tr) = Some tr"
| "toolResult_of b = None"

text \<open>\<^verbatim>\<open>'text' in block && block.text\<close>: the text of a Text block that is not empty.\<close>

fun text_of :: "content_block \<Rightarrow> string option" where
  "text_of (Text t) = (if t \<noteq> [] then Some t else None)"
| "text_of b = None"

fun result_item :: "(js \<Rightarrow> string) \<Rightarrow> tool_result_content \<Rightarrow> string" where
  "result_item stringify (ResultText t) = t"
| "result_item stringify (ResultJson j) = (if truthy j then stringify j else [])"
| "result_item stringify ResultOther = []"

definition tool_message :: "(js \<Rightarrow> string) \<Rightarrow> tool_result \<Rightarrow> OpenAIMessage" where
  "tool_message stringify toolResult =
     (let resultContent = (case tr_content toolResult of
                             None \<Rightarrow> []
                           | Some cs \<Rightarrow> join newline (filter (\<lambda>x. x \<noteq> []) (map (result_item stringify) cs)))
      in \<lparr> role = ''tool'', content = Some resultContent, tool_calls = None,
           tool_call_id = Some (case tr_toolUseId toolResult of None \<Rightarrow> [] | Some i \<Rightarrow> i) \<rparr>)"

definition user_message :: "string \<Rightarrow> OpenAIMessage" where
  "user_message text = \<lparr> role = ''user'', content = Some text, tool_calls = None, tool_call_id = None \<rparr>"

text \<open>The branch \<^verbatim>\<open>msg.role === 'user'\<close>.\<close>

definition convert_user :: "(js \<Rightarrow> string) \<Rightarrow> content_block list \<Rightarrow> OpenAIMessage list" where
  "convert_user stringify blocks =
     (let toolResults = List.map_filter toolResult_of blocks;
          textBlocks = List.map_filter text_of blocks
      in map (tool_message stringify) toolResults @
         (if length textBlocks > 0
          then (let text = join newline (filter (\<lambda>x. x \<noteq> []) textBlocks)
                in if text \<noteq> [] then [user_message text] else [])
          else if length toolResults = 0 then [user_message []]
          else []))"

text \<open>
  The branch \<^verbatim>\<open>msg.role === 'assistant'\<close>. The loop carries \<^verbatim>\<open>textParts\<close>,
  \<^verbatim>\<open>toolCalls\<close> and the number of \<^verbatim>\<open>Date.now()\<close> calls made so far.
\<close>

definition assistant_step :: "(js \<Rightarrow> string) \<Rightarrow> (nat \<Rightarrow> nat)
    \<Rightarrow> string list \<times> OpenAIToolCall list \<times> nat \<Rightarrow> content_block
    \<Rightarrow> string list \<times> OpenAIToolCall list \<times> nat" where
  "assistant_step stringify now st block =
     (case st of (textParts, toolCalls, reads) \<Rightarrow>
        (case block of
           Text t \<Rightarrow> (if t \<noteq> [] then (textParts @ [t], toolCalls, reads) else st)
         | ToolUse toolUse \<Rightarrow>
             (let generated = (case tu_toolUseId toolUse of None \<Rightarrow> True | Some i \<Rightarrow> i = []);
                  call = \<lparr> call_id = (case tu_toolUseId toolUse of
                                         None \<Rightarrow> ''call_'' @ dec_nat (now reads)
                                       | Some i \<Rightarrow> if i \<noteq> [] then i else ''call_'' @ dec_nat (now reads)),
                           call_type = ''function'',
                           fn_name = (case tu_name toolUse of None \<Rightarrow> [] | Some n \<Rightarrow> n),
                           fn_arguments = (case tu_input toolUse of
                                             JStr str \<Rightarrow> str
                                           | v \<Rightarrow> stringify (js_or v (JObj []))) \<rparr>
              in (textParts, toolCalls @ [call], if generated then reads + 1 else reads))
         | ToolResult tr \<Rightarrow> st
         | OtherBlock \<Rightarrow> st))"

definition convert_assistant :: "(js \<Rightarrow> string) \<Rightarrow> (nat \<Rightarrow> nat) \<Rightarrow> nat \<Rightarrow> content_block list
    \<Rightarrow> OpenAIMessage \<times> nat" where
  "convert_assistant stringify now reads blocks =
     (case foldl (assistant_step stringify now) ([], [], reads) blocks of
        (textParts, toolCalls, reads') \<Rightarrow>
          (\<lparr> role = ''assistant'',
             content = (if length textParts > 0 then Some (join newline textParts) else None),
             tool_calls = (if length toolCalls > 0 then Some toolCalls else None),
             tool_call_id = None \<rparr>, reads'))"

text \<open>The loop over the messages: the wire messages so far and the clock reads so far.\<close>

definition convert_message :: "(js \<Rightarrow> string) \<Rightarrow> (nat \<Rightarrow> nat)
    \<Rightarrow> OpenAIMessage list \<times> nat \<Rightarrow> message \<Rightarrow> OpenAIMessage list \<times> nat" where
  "convert_message stringify now acc msg =
     (case acc of (result, reads) \<Rightarrow>
        (case msg_content msg of
           None \<Rightarrow> acc
         | Some blocks \<Rightarrow>
             if msg_role msg = Some User then (result @ convert_user stringify blocks, reads)
             else if msg_role msg = Some Assistant
             then (case convert_assistant stringify now reads blocks of
                     (assistantMsg, reads') \<Rightarrow> (result @ [assistantMsg], reads'))
             else acc))"

definition convertMessagesToOpenAI :: "(js \<Rightarrow> string) \<Rightarrow> (nat \<Rightarrow> nat) \<Rightarrow> message list \<Rightarrow> OpenAIMessage list" where
  "convertMessagesToOpenAI stringify now messages = fst (foldl (convert_message stringify now) ([], 0) messages)"

subsection \<open>\<^verbatim>\<open>convertSystemToOpenAI\<close>, \<^verbatim>\<open>convertToolConfigToOpenAI\<close>, \<^verbatim>\<open>buildOpenAIRequest\<close>\<close>

datatype system_block = SystemText string | SystemOther

definition convertSystemToOpenAI :: "system_block list option \<Rightarrow> OpenAIMessage option" where
  "convertSystemToOpenAI system =
     (case system of
        None \<Rightarrow> None
      | Some blocks \<Rightarrow>
          if length blocks = 0 then None
          else (let text = join newline (filter (\<lambda>x. x \<noteq> [])
                             (map (\<lambda>b. case b of SystemText t \<Rightarrow> t | SystemOther \<Rightarrow> []) blocks))
                in if text = [] then None
                   else Some \<lparr> role = ''system'', content = Some text, tool_calls = None, tool_call_id = None \<rparr>))"

text \<open>\<open>ts_schema\<close> is the value of \<^verbatim>\<open>toolSpec.inputSchema?.json\<close>.\<close>

record tool_spec =
  ts_name :: "string option"
  ts_description :: "string option"
  ts_schema :: js

datatype tool = ToolSpec tool_spec | OtherTool

record OpenAITool =
  tool_type :: string
  tool_name :: string
  tool_description :: string
  tool_parameters :: js

fun toolSpec_of :: "tool \<Rightarrow> tool_spec option" where
  "toolSpec_of (ToolSpec spec) = Some spec"
| "toolSpec_of OtherTool = None"

text \<open>The argument is \<^verbatim>\<open>toolConfig?.tools\<close>.\<close>

definition convertToolConfigToOpenAI :: "tool list option \<Rightarrow> OpenAITool list option" where
  "convertToolConfigToOpenAI tools =
     (case tools of
        None \<Rightarrow> None
      | Some ts \<Rightarrow>
          if length ts = 0 then None
          else Some (map (\<lambda>spec. \<lparr> tool_type = ''function'',
                                    tool_name = (case ts_name spec of None \<Rightarrow> [] | Some n \<Rightarrow> n),
                                    tool_description = (case ts_description spec of None \<Rightarrow> [] | Some d \<Rightarrow> d),
                                    tool_parameters = js_or (ts_schema spec) (JObj []) \<rparr>)
                         (List.map_filter toolSpec_of ts)))"

text \<open>The numbers of the inference configuration are rationals; \<^verbatim>\<open>NaN\<close> and the infinities
  are outside the model.\<close>

record inference_config =
  maxTokens :: "rat option"
  temperature :: "rat option"
  topP :: "rat option"

record build_params =
  modelId :: string
  messages :: "message list"
  system :: "system_block list option"
  toolConfig :: "tool list option"
  inferenceConfig :: "inference_config option"
  stream :: "bool option"

record OpenAIChatCompletionRequest =
  model :: string
  req_messages :: "OpenAIMessage list"
  tools :: "OpenAITool list option"
  tool_choice :: "string option"
  max_tokens :: "rat option"
  req_temperature :: "rat option"
  top_p :: "rat option"
  req_stream :: bool

definition buildOpenAIRequest :: "(js \<Rightarrow> string) \<Rightarrow> (nat \<Rightarrow> nat) \<Rightarrow> build_params \<Rightarrow> OpenAIChatCompletionRequest" where
  "buildOpenAIRequest stringify now params =
     (let openaiMessages = (case convertSystemToOpenAI (system params) of
                              None \<Rightarrow> []
                            | Some systemMsg \<Rightarrow> [systemMsg])
                           @ convertMessagesToOpenAI stringify now (messages params);
          request = \<lparr> model = modelId params,
                      req_messages = openaiMessages,
                      tools = None, tool_choice = None,
                      max_tokens = None, req_temperature = None, top_p = None,
                      req_stream = (case stream params of None \<Rightarrow> True | Some b \<Rightarrow> b) \<rparr>;
          request1 = (case convertToolConfigToOpenAI (toolConfig params) of
                        None \<Rightarrow> request
                      | Some ts \<Rightarrow> if length ts > 0
                                   then request\<lparr> tools := Some ts, tool_choice := Some ''auto'' \<rparr>
                                   else request)
      in case inferenceConfig params of
           None \<Rightarrow> request1
         | Some ic \<Rightarrow>
             (let r1 = (case maxTokens ic of
                          None \<Rightarrow> request1
                        | Some n \<Rightarrow> if n \<noteq> 0 then request1\<lparr> max_tokens := Some n \<rparr> else request1);
                  r2 = (case temperature ic of
                          None \<Rightarrow> r1
                        | Some t \<Rightarrow> r1\<lparr> req_temperature := Some t \<rparr>)
              in (case topP ic of
                    None \<Rightarrow> r2
                  | Some p \<Rightarrow> r2\<lparr> top_p := Some p \<rparr>)))"

section \<open>A writer for JSON text\<close>

text \<open>\<^verbatim>\<open>JSON.stringify\<close> without indentation, to run the converter on concrete values. An
  \<^verbatim>\<open>undefined\<close> element of an array is written \<^verbatim>\<open>null\<close> and an \<^verbatim>\<open>undefined\<close> member of an
  object is left out; the converter never passes \<^verbatim>\<open>undefined\<close> itself.\<close>

definition hex_digit :: "nat \<Rightarrow> char" where
  "hex_digit n = (if n < 10 then char_of (48 + n) else char_of (87 + n))"

definition escape_char :: "char \<Rightarrow> string" where
  "escape_char c =
     (if c = CHR 0x22 then [CHR 0x5C, CHR 0x22]
      else if c = CHR 0x5C then [CHR 0x5C, CHR 0x5C]
      else if c = CHR 0x0A then [CHR 0x5C, CHR ''n'']
      else if c = CHR 0x0D then [CHR 0x5C, CHR ''r'']
      else if c = CHR 0x09 then [CHR 0x5C, CHR ''t'']
      else if c = CHR 0x08 then [CHR 0x5C, CHR ''b'']
      else if c = CHR 0x0C then [CHR 0x5C, CHR ''f'']
      else if of_char c < (32 :: nat)
      then [CHR 0x5C, CHR ''u'', CHR ''0'', CHR ''0'',
            hex_digit (of_char c div 16), hex_digit (of_char c mod 16)]
      else [c])"

definition quote :: "string \<Rightarrow> string" where
  "quote s = [CHR 0x22] @ concat (map escape_char s) @ [CHR 0x22]"

fun json_stringify :: "js \<Rightarrow> string" where
  "json_stringify JUndefined = []"
| "json_stringify JNull = ''null''"
| "json_stringify (JBool b) = (if b then ''true'' else ''false'')"
| "json_stringify (JNum n) = dec_int n"
| "json_stringify (JStr s) = quote s"
| "json_stringify (JArr xs) =
     ''['' @ join '','' (map (\<lambda>x. if x = JUndefined then ''null'' else json_stringify x) xs) @ '']''"
| "json_stringify (JObj kvs) =
     ''{'' @ join '','' (map (\<lambda>kv. quote (fst kv) @ '':'' @ json_stringify (snd kv))
                          (filter (\<lambda>kv. snd kv \<noteq> JUndefined) kvs)) @ ''}''"

section \<open>The dispatcher: \<^verbatim>\<open>converse\<close>, \<^verbatim>\<open>converseStream\<close> and their error handlers\<close>










section \<open>Auxiliary notions\<close>

text \<open>The session with another carry-over buffer.\<close>

definition with_buffer :: "string \<Rightarrow> session \<Rightarrow> session" where
  "with_buffer b s = s\<lparr> buffer := b \<rparr>"


section \<open>The round trip and the user branch, as the specification states them\<close>



















section \<open>The events of a session\<close>

subsection \<open>The queue only grows at its end\<close>

text \<open>No operation of the translator reads \<open>pendingEvents\<close>: each commutes with putting
  events in front of the queue.\<close>

lemma prepend_fields [simp]:
  "done_flag (prepend p s) = done_flag s"
  "buffer (prepend p s) = buffer s"
  "contentBlockIndex (prepend p s) = contentBlockIndex s"
  "toolCallAccumulator (prepend p s) = toolCallAccumulator s"
  "messageStartSent (prepend p s) = messageStartSent s"
  "currentContentBlockOpen (prepend p s) = currentContentBlockOpen s"
  "inputTokens (prepend p s) = inputTokens s"
  "outputTokens (prepend p s) = outputTokens s"
  "pendingEvents (prepend p s) = p @ pendingEvents s"
  "clockReads (prepend p s) = clockReads s"
  by (simp_all add: prepend_def)

lemma prepend_self: "prepend (pendingEvents s) (s\<lparr> pendingEvents := [] \<rparr>) = s"
  by (simp add: prepend_def)

lemma push_prepend: "push e (prepend p s) = prepend p (push e s)"
  by (simp add: push_def prepend_def)

lemma flush_tool_prepend: "flush_tool (prepend p s) entry = prepend p (flush_tool s entry)"
  by (simp add: flush_tool_def Let_def push_def prepend_def)

lemma foldl_flush_tool_prepend:
  "foldl flush_tool (prepend p s) xs = prepend p (foldl flush_tool s xs)"
  by (induction xs arbitrary: s) (simp_all add: flush_tool_prepend)

lemma acc_upd_prepend:
  "(prepend p s)\<lparr> toolCallAccumulator := a \<rparr> = prepend p (s\<lparr> toolCallAccumulator := a \<rparr>)"
  by (simp add: prepend_def)

lemma flush_tools_prepend: "flush_tools (prepend p s) = prepend p (flush_tools s)"
  by (simp add: flush_tools_def foldl_flush_tool_prepend acc_upd_prepend)

lemma done_upd_prepend: "(prepend p s)\<lparr> done_flag := b \<rparr> = prepend p (s\<lparr> done_flag := b \<rparr>)"
  by (simp add: prepend_def)

lemma open_upd_prepend:
  "(prepend p s)\<lparr> currentContentBlockOpen := b \<rparr> = prepend p (s\<lparr> currentContentBlockOpen := b \<rparr>)"
  by (simp add: prepend_def)

lemma index_upd_prepend:
  "(prepend p s)\<lparr> contentBlockIndex := i \<rparr> = prepend p (s\<lparr> contentBlockIndex := i \<rparr>)"
  by (simp add: prepend_def)

lemma end_of_stream_prepend: "end_of_stream (prepend p s) = prepend p (end_of_stream s)"
  by (simp add: end_of_stream_def Let_def done_upd_prepend open_upd_prepend push_prepend
      flush_tools_prepend)

lemma track_usage_prepend: "track_usage (prepend p s) parsed = prepend p (track_usage s parsed)"
  by (simp add: track_usage_def Let_def prepend_def)

lemma send_message_start_prepend:
  "send_message_start (prepend p s) = prepend p (send_message_start s)"
  by (simp add: send_message_start_def push_def prepend_def)

lemma handle_content_prepend:
  "handle_content (prepend p s) delta = prepend p (handle_content s delta)"
  by (simp add: handle_content_def Let_def push_def prepend_def)

lemma close_text_block_prepend: "close_text_block (prepend p s) = prepend p (close_text_block s)"
  by (simp add: close_text_block_def push_def prepend_def)

lemma accumulate_prepend: "accumulate now (prepend p s) tc = prepend p (accumulate now s tc)"
  by (simp add: accumulate_def Let_def prepend_def cong: option.case_cong)

lemma tool_calls_loop_prepend:
  "tool_calls_loop now (prepend p s) tcs = map_sum (prepend p) (prepend p) (tool_calls_loop now s tcs)"
  by (induction tcs arbitrary: s) (simp_all add: accumulate_prepend)

lemma handle_tool_calls_prepend:
  "handle_tool_calls now (prepend p s) delta = map_sum (prepend p) (prepend p) (handle_tool_calls now s delta)"
  by (simp add: handle_tool_calls_def Let_def close_text_block_prepend tool_calls_loop_prepend
      split: option.splits)

lemma handle_finish_prepend: "handle_finish (prepend p s) choice = prepend p (handle_finish s choice)"
  by (simp add: handle_finish_def Let_def close_text_block_prepend flush_tools_prepend
      push_prepend done_upd_prepend)

lemma process_parsed_prepend:
  "process_parsed now (prepend p s) parsed = prepend p (process_parsed now s parsed)"
  by (simp add: process_parsed_def Let_def track_usage_prepend send_message_start_prepend
      handle_content_prepend handle_tool_calls_prepend handle_finish_prepend split: sum.splits)

lemma process_line_prepend:
  "process_line parse now (prepend p s) line = prepend p (process_line parse now s line)"
  by (simp add: process_line_def Let_def process_parsed_prepend split: option.splits)

lemma foldl_process_line_prepend:
  "foldl (process_line parse now) (prepend p s) ls = prepend p (foldl (process_line parse now) s ls)"
  by (induction ls arbitrary: s) (simp_all add: process_line_prepend)

lemma buffer_upd_prepend: "(prepend p s)\<lparr> buffer := b \<rparr> = prepend p (s\<lparr> buffer := b \<rparr>)"
  by (simp add: prepend_def)

lemma on_chunk_prepend:
  "on_chunk parse now (prepend p s) chunk = prepend p (on_chunk parse now s chunk)"
  by (simp add: on_chunk_def Let_def buffer_upd_prepend foldl_process_line_prepend)

lemma feed_prepend: "feed parse now (prepend p s) chunks = prepend p (feed parse now s chunks)"
  by (induction chunks arbitrary: s) (simp_all add: end_of_stream_prepend on_chunk_prepend Let_def)

subsection \<open>A finished session has events to deliver\<close>

lemma push_fields [simp]:
  "done_flag (push e s) = done_flag s"
  "buffer (push e s) = buffer s"
  "contentBlockIndex (push e s) = contentBlockIndex s"
  "toolCallAccumulator (push e s) = toolCallAccumulator s"
  "messageStartSent (push e s) = messageStartSent s"
  "currentContentBlockOpen (push e s) = currentContentBlockOpen s"
  "inputTokens (push e s) = inputTokens s"
  "outputTokens (push e s) = outputTokens s"
  "pendingEvents (push e s) = pendingEvents s @ [e]"
  "clockReads (push e s) = clockReads s"
  by (simp_all add: push_def)

lemma flush_tool_done [simp]: "done_flag (flush_tool s entry) = done_flag s"
  by (simp add: flush_tool_def Let_def)

lemma foldl_flush_tool_done [simp]: "done_flag (foldl flush_tool s xs) = done_flag s"
  by (induction xs arbitrary: s) simp_all

lemma flush_tools_done [simp]: "done_flag (flush_tools s) = done_flag s"
  by (simp add: flush_tools_def)

lemma end_of_stream_done [simp]: "done_flag (end_of_stream s)"
  by (simp add: end_of_stream_def Let_def)

lemma end_of_stream_pending [simp]: "pendingEvents (end_of_stream s) \<noteq> []"
  by (simp add: end_of_stream_def Let_def)

lemma track_usage_done [simp]: "done_flag (track_usage s parsed) = done_flag s"
  by (simp add: track_usage_def Let_def)

lemma send_message_start_done [simp]: "done_flag (send_message_start s) = done_flag s"
  by (simp add: send_message_start_def)

lemma handle_content_done [simp]: "done_flag (handle_content s delta) = done_flag s"
  by (simp add: handle_content_def Let_def)

lemma close_text_block_done [simp]: "done_flag (close_text_block s) = done_flag s"
  by (simp add: close_text_block_def)

lemma accumulate_done [simp]: "done_flag (accumulate now s tc) = done_flag s"
  by (simp add: accumulate_def Let_def)

lemma tool_calls_loop_done:
  "tool_calls_loop now s tcs = Inl s' \<or> tool_calls_loop now s tcs = Inr s' \<Longrightarrow> done_flag s' = done_flag s"
  by (induction tcs arbitrary: s) (auto split: if_splits)

lemma handle_tool_calls_done:
  "handle_tool_calls now s delta = Inl s' \<or> handle_tool_calls now s delta = Inr s' \<Longrightarrow> done_flag s' = done_flag s"
  using tool_calls_loop_done [of now "close_text_block s" _ s']
  by (auto simp: handle_tool_calls_def Let_def split: if_splits option.splits)

lemma handle_finish_done:
  "done_flag (handle_finish s choice) \<Longrightarrow> done_flag s \<or> pendingEvents (handle_finish s choice) \<noteq> []"
  by (simp add: handle_finish_def Let_def split: if_splits)

lemma process_parsed_done:
  "done_flag (process_parsed now s parsed) \<Longrightarrow> done_flag s \<or> pendingEvents (process_parsed now s parsed) \<noteq> []"
  using handle_finish_done handle_tool_calls_done
  by (fastforce simp: process_parsed_def Let_def split: if_splits sum.splits)

lemma pending_grows:
  assumes "\<And>p s. f (prepend p s) = prepend p (f s)"
  shows "pendingEvents (f s) = pendingEvents s @ pendingEvents (f (s\<lparr> pendingEvents := [] \<rparr>))"
proof -
  have "f s = f (prepend (pendingEvents s) (s\<lparr> pendingEvents := [] \<rparr>))"
    by (simp add: prepend_self)
  also have "\<dots> = prepend (pendingEvents s) (f (s\<lparr> pendingEvents := [] \<rparr>))"
    by (rule assms)
  finally show ?thesis by simp
qed

lemma process_line_settled: "settled s \<Longrightarrow> settled (process_line parse now s line)"
proof -
  assume a: "settled s"
  have g: "pendingEvents (process_parsed now s j) = pendingEvents s @ pendingEvents (process_parsed now (s\<lparr> pendingEvents := [] \<rparr>) j)" for j
    by (rule pending_grows [where f = "\<lambda>s. process_parsed now s j"]) (rule process_parsed_prepend)
  have "settled (process_parsed now s j)" for j
    using a g [of j] process_parsed_done [of now s j] by (auto simp: settled_def)
  then show ?thesis
    using a by (simp add: process_line_def Let_def split: option.splits)
qed

lemma foldl_process_line_settled:
  "settled s \<Longrightarrow> settled (foldl (process_line parse now) s ls)"
  by (induction ls arbitrary: s) (simp_all add: process_line_settled)

lemma on_chunk_settled: "settled s \<Longrightarrow> settled (on_chunk parse now s chunk)"
proof -
  assume "settled s"
  then have "settled (s\<lparr> buffer := b \<rparr>)" for b
    by (simp add: settled_def)
  then show ?thesis
    by (simp add: on_chunk_def Let_def foldl_process_line_settled)
qed

lemma shift_done: "shift s = (r, s') \<Longrightarrow> done_flag s' = done_flag s"
  by (auto simp: shift_def split: list.splits)

lemma read_loop_progress:
  "read_loop parse now s chunks = (r, s', chunks') \<Longrightarrow> done_flag s' \<or> length chunks' < length chunks"
proof (induction chunks arbitrary: s)
  case Nil
  then show ?case
    using shift_done [of "end_of_stream s"] by (auto split: prod.splits)
next
  case (Cons chunk rest)
  show ?case
  proof (cases "pendingEvents (on_chunk parse now s chunk) \<noteq> []")
    case True
    with Cons.prems show ?thesis by (auto simp: Let_def split: prod.splits)
  next
    case False
    with Cons.prems have "read_loop parse now (on_chunk parse now s chunk) rest = (r, s', chunks')"
      by (simp add: Let_def)
    from Cons.IH [OF this] show ?thesis by auto
  qed
qed

lemma next_event_progress:
  assumes "next_event parse now s chunks = (Some e, s', chunks')"
  shows "(done_flag s' = done_flag s \<and> chunks' = chunks \<and> length (pendingEvents s') < length (pendingEvents s))
       \<or> (\<not> done_flag s \<and> (done_flag s' \<or> length chunks' < length chunks))"
proof (cases "pendingEvents s")
  case Nil
  with assms have "\<not> done_flag s" and "read_loop parse now s chunks = (Some e, s', chunks')"
    by (auto simp: next_event_def split: if_splits)
  with read_loop_progress show ?thesis by blast
next
  case (Cons x xs)
  with assms show ?thesis
    by (auto simp: next_event_def shift_def)
qed

termination collect
  by (relation "measures [\<lambda>(parse, now, s, chunks). if done_flag s then 0 else 1,
                          \<lambda>(parse, now, s, chunks). length chunks,
                          \<lambda>(parse, now, s, chunks). length (pendingEvents s)]")
     (auto dest!: next_event_progress [OF sym])

subsection \<open>The consumer receives the queue of the session run to its end\<close>

declare collect.simps [simp del]

lemma collect_drain:
  "collect parse now s chunks = pendingEvents s @ collect parse now (s\<lparr> pendingEvents := [] \<rparr>) chunks"
proof (induction "pendingEvents s" arbitrary: s)
  case Nil
  have "s\<lparr> pendingEvents := pendingEvents s \<rparr> = s" by simp
  with Nil have eq: "s\<lparr> pendingEvents := [] \<rparr> = s" by metis
  from Nil [symmetric] show ?case unfolding eq by simp
next
  case (Cons e es)
  from Cons.hyps(2) [symmetric] have step: "collect parse now s chunks = e # collect parse now (s\<lparr> pendingEvents := es \<rparr>) chunks"
    by (subst collect.simps) (simp add: next_event_def shift_def split: list.splits)
  have "collect parse now (s\<lparr> pendingEvents := es \<rparr>) chunks
        = es @ collect parse now (s\<lparr> pendingEvents := [] \<rparr>) chunks"
    using Cons.hyps(1) [of "s\<lparr> pendingEvents := es \<rparr>"] by simp
  with step Cons.hyps(2) [symmetric] show ?case by simp
qed

lemma collect_done:
  "done_flag s \<Longrightarrow> pendingEvents s = [] \<Longrightarrow> collect parse now s chunks = []"
  by (subst collect.simps) (simp add: next_event_def)

lemma collect_settled:
  "done_flag s \<Longrightarrow> collect parse now s chunks = pendingEvents s"
  by (subst collect_drain) (simp add: collect_done)

lemma feed_pending:
  "pendingEvents (feed parse now s chunks)
     = pendingEvents s @ pendingEvents (feed parse now (s\<lparr> pendingEvents := [] \<rparr>) chunks)"
  by (rule pending_grows [where f = "\<lambda>s. feed parse now s chunks"]) (rule feed_prepend)

lemma collect_read:
  "\<not> done_flag s \<Longrightarrow> pendingEvents s = [] \<Longrightarrow>
   collect parse now s chunks = pendingEvents (feed parse now s chunks)"
proof (induction chunks arbitrary: s)
  case Nil
  have "pendingEvents (end_of_stream s) \<noteq> []" by simp
  then obtain e es where es: "pendingEvents (end_of_stream s) = e # es"
    by (cases "pendingEvents (end_of_stream s)") auto
  with Nil have "collect parse now s [] = e # collect parse now ((end_of_stream s)\<lparr> pendingEvents := es \<rparr>) []"
    by (subst collect.simps) (simp add: next_event_def shift_def)
  also have "collect parse now ((end_of_stream s)\<lparr> pendingEvents := es \<rparr>) [] = es"
    by (simp add: collect_settled)
  finally show ?case using es by simp
next
  case (Cons chunk rest)
  let ?s1 = "on_chunk parse now s chunk"
  from Cons.prems have st: "settled ?s1"
    by (intro on_chunk_settled) (simp add: settled_def)
  show ?case
  proof (cases "pendingEvents ?s1")
    case Nil
    with st have nd: "\<not> done_flag ?s1" by (simp add: settled_def)
    from Nil Cons.prems have "collect parse now s (chunk # rest) = collect parse now ?s1 rest"
      using nd by (subst collect.simps, subst (2) collect.simps) (simp add: next_event_def Let_def)
    with Cons.IH [OF nd Nil] nd show ?thesis by (simp add: Let_def)
  next
    case (Cons e es)
    with Cons.prems have "collect parse now s (chunk # rest) = e # collect parse now (?s1\<lparr> pendingEvents := es \<rparr>) rest"
      by (subst collect.simps) (simp add: next_event_def shift_def Let_def)
    also have "collect parse now (?s1\<lparr> pendingEvents := es \<rparr>) rest
               = es @ collect parse now (?s1\<lparr> pendingEvents := [] \<rparr>) rest"
      by (subst collect_drain) simp
    finally have c: "collect parse now s (chunk # rest)
                     = pendingEvents ?s1 @ collect parse now (?s1\<lparr> pendingEvents := [] \<rparr>) rest"
      using Cons by simp
    show ?thesis
    proof (cases "done_flag ?s1")
      case True
      then show ?thesis using c by (simp add: collect_done Let_def)
    next
      case False
      then have "collect parse now (?s1\<lparr> pendingEvents := [] \<rparr>) rest
                 = pendingEvents (feed parse now (?s1\<lparr> pendingEvents := [] \<rparr>) rest)"
        by (intro Cons.IH) simp_all
      with c False show ?thesis
        using feed_pending [of parse now ?s1 rest] by (simp add: Let_def)
    qed
  qed
qed

lemma collect_init:
  "collect parse now init_session chunks = pendingEvents (feed parse now init_session chunks)"
  by (rule collect_read) (simp_all add: init_session_def)


subsection \<open>What the closing paths leave untouched\<close>

lemma flush_tool_tokens [simp]:
  "inputTokens (flush_tool s entry) = inputTokens s"
  "outputTokens (flush_tool s entry) = outputTokens s"
  by (simp_all add: flush_tool_def Let_def)

lemma foldl_flush_tool_tokens [simp]:
  "inputTokens (foldl flush_tool s xs) = inputTokens s"
  "outputTokens (foldl flush_tool s xs) = outputTokens s"
  by (induction xs arbitrary: s) simp_all

lemma flush_tools_tokens [simp]:
  "inputTokens (flush_tools s) = inputTokens s"
  "outputTokens (flush_tools s) = outputTokens s"
  by (simp_all add: flush_tools_def)

lemma close_text_block_tokens [simp]:
  "inputTokens (close_text_block s) = inputTokens s"
  "outputTokens (close_text_block s) = outputTokens s"
  by (simp_all add: close_text_block_def)

lemma end_of_stream_tail:
  "\<exists>pre. pendingEvents (end_of_stream s)
           = pre @ [MessageStop ''end_turn'', Metadata (inputTokens s) (outputTokens s) 0]"
  by (simp add: end_of_stream_def Let_def)


lemma truthy_not_nullish: "truthy v \<Longrightarrow> \<not> nullish v"
  by (cases v) simp_all

lemma truthy_choice_parsed: "truthy (index0 (dot parsed ''choices'')) \<Longrightarrow> \<not> nullish parsed"
  by (cases parsed) simp_all

subsection \<open>The carry-over buffer\<close>

lemma split_nl_not_Nil [simp]: "split_nl s \<noteq> []"
  by (induction s) (auto split: list.splits)

lemma split_nl_single: "CHR 0x0A \<notin> set s \<Longrightarrow> split_nl s = [s]"
  by (induction s) auto

lemma last_split_nl: "CHR 0x0A \<notin> set (last (split_nl s))"
proof (induction s)
  case Nil
  show ?case by simp
next
  case (Cons c cs)
  then show ?case
    by (cases "split_nl cs") (auto split: if_splits)
qed

lemma flush_tool_buffer [simp]: "buffer (flush_tool s entry) = buffer s"
  by (simp add: flush_tool_def Let_def)

lemma foldl_flush_tool_buffer [simp]: "buffer (foldl flush_tool s xs) = buffer s"
  by (induction xs arbitrary: s) simp_all

lemma flush_tools_buffer [simp]: "buffer (flush_tools s) = buffer s"
  by (simp add: flush_tools_def)

lemma track_usage_buffer [simp]: "buffer (track_usage s parsed) = buffer s"
  by (simp add: track_usage_def Let_def)

lemma send_message_start_buffer [simp]: "buffer (send_message_start s) = buffer s"
  by (simp add: send_message_start_def)

lemma handle_content_buffer [simp]: "buffer (handle_content s delta) = buffer s"
  by (simp add: handle_content_def Let_def)

lemma close_text_block_buffer [simp]: "buffer (close_text_block s) = buffer s"
  by (simp add: close_text_block_def)

lemma accumulate_buffer [simp]: "buffer (accumulate now s tc) = buffer s"
  by (simp add: accumulate_def Let_def)

lemma tool_calls_loop_buffer:
  "tool_calls_loop now s tcs = Inl s' \<or> tool_calls_loop now s tcs = Inr s' \<Longrightarrow> buffer s' = buffer s"
  by (induction tcs arbitrary: s) (auto split: if_splits)

lemma handle_tool_calls_buffer:
  "handle_tool_calls now s delta = Inl s' \<or> handle_tool_calls now s delta = Inr s' \<Longrightarrow> buffer s' = buffer s"
  using tool_calls_loop_buffer [of now "close_text_block s" _ s']
  by (auto simp: handle_tool_calls_def Let_def split: if_splits option.splits)

lemma handle_finish_buffer [simp]: "buffer (handle_finish s choice) = buffer s"
  by (simp add: handle_finish_def Let_def)

lemma process_parsed_buffer [simp]: "buffer (process_parsed now s parsed) = buffer s"
  using handle_tool_calls_buffer
  by (fastforce simp: process_parsed_def Let_def split: if_splits sum.splits)

lemma process_line_buffer [simp]: "buffer (process_line parse now s line) = buffer s"
  by (simp add: process_line_def Let_def split: option.splits)

lemma foldl_process_line_buffer [simp]: "buffer (foldl (process_line parse now) s ls) = buffer s"
  by (induction ls arbitrary: s) simp_all

lemma on_chunk_buffer: "buffer (on_chunk parse now s chunk) = last (split_nl (buffer s @ chunk))"
  by (simp add: on_chunk_def Let_def)

lemma on_chunk_partial:
  "CHR 0x0A \<notin> set (buffer s) \<Longrightarrow> CHR 0x0A \<notin> set t \<Longrightarrow>
   on_chunk parse now s t = with_buffer (buffer s @ t) s"
  by (simp add: on_chunk_def Let_def split_nl_single with_buffer_def)

lemma with_buffer_fields [simp]:
  "done_flag (with_buffer b s) = done_flag s"
  "currentContentBlockOpen (with_buffer b s) = currentContentBlockOpen s"
  "contentBlockIndex (with_buffer b s) = contentBlockIndex s"
  "toolCallAccumulator (with_buffer b s) = toolCallAccumulator s"
  "inputTokens (with_buffer b s) = inputTokens s"
  "outputTokens (with_buffer b s) = outputTokens s"
  "pendingEvents (with_buffer b s) = pendingEvents s"
  by (simp_all add: with_buffer_def)

lemma with_buffer_updates:
  "(with_buffer b s)\<lparr> done_flag := d \<rparr> = with_buffer b (s\<lparr> done_flag := d \<rparr>)"
  "(with_buffer b s)\<lparr> currentContentBlockOpen := c \<rparr> = with_buffer b (s\<lparr> currentContentBlockOpen := c \<rparr>)"
  "(with_buffer b s)\<lparr> toolCallAccumulator := a \<rparr> = with_buffer b (s\<lparr> toolCallAccumulator := a \<rparr>)"
  "push e (with_buffer b s) = with_buffer b (push e s)"
  by (simp_all add: with_buffer_def push_def)

lemma flush_tool_with_buffer: "flush_tool (with_buffer b s) entry = with_buffer b (flush_tool s entry)"
  by (simp add: flush_tool_def Let_def push_def with_buffer_def)

lemma foldl_flush_tool_with_buffer:
  "foldl flush_tool (with_buffer b s) xs = with_buffer b (foldl flush_tool s xs)"
  by (induction xs arbitrary: s) (simp_all add: flush_tool_with_buffer)

lemma flush_tools_with_buffer: "flush_tools (with_buffer b s) = with_buffer b (flush_tools s)"
  by (simp add: flush_tools_def foldl_flush_tool_with_buffer with_buffer_updates)

lemma end_of_stream_with_buffer: "end_of_stream (with_buffer b s) = with_buffer b (end_of_stream s)"
  by (simp add: end_of_stream_def Let_def with_buffer_updates flush_tools_with_buffer)

lemma feed_trailing_fragment:
  "\<not> done_flag s \<Longrightarrow> CHR 0x0A \<notin> set (buffer s) \<Longrightarrow> CHR 0x0A \<notin> set t \<Longrightarrow>
   pendingEvents (feed parse now s (chunks @ [t])) = pendingEvents (feed parse now s chunks)"
proof (induction chunks arbitrary: s)
  case Nil
  then show ?case
    by (simp add: on_chunk_partial end_of_stream_with_buffer Let_def)
next
  case (Cons chunk rest)
  let ?s1 = "on_chunk parse now s chunk"
  show ?case
  proof (cases "done_flag ?s1")
    case True
    then show ?thesis by (simp add: Let_def)
  next
    case False
    have "CHR 0x0A \<notin> set (buffer ?s1)"
      by (simp add: on_chunk_buffer last_split_nl)
    from Cons.IH [OF False this Cons.prems(3)] False show ?thesis
      by (simp add: Let_def)
  qed
qed

subsection \<open>The tail of a chunk after its last newline\<close>

lemma split_nl_tail:
  "CHR 0x0A \<notin> set t \<Longrightarrow> split_nl (x @ t) = butlast (split_nl x) @ [last (split_nl x) @ t]"
proof (induction x)
  case Nil
  then show ?case by (simp add: split_nl_single)
next
  case (Cons c x)
  then show ?case
    by (cases "split_nl x") (auto split: list.splits)
qed

lemma with_buffer_twice [simp]: "with_buffer b (with_buffer b' s) = with_buffer b s"
  by (simp add: with_buffer_def)

lemma buffer_with_buffer [simp]: "buffer (with_buffer b s) = b"
  by (simp add: with_buffer_def)

lemma with_buffer_more_fields [simp]:
  "messageStartSent (with_buffer b s) = messageStartSent s"
  "clockReads (with_buffer b s) = clockReads s"
  by (simp_all add: with_buffer_def)

lemma track_usage_with_buffer: "track_usage (with_buffer b s) parsed = with_buffer b (track_usage s parsed)"
  by (simp add: track_usage_def Let_def with_buffer_def)

lemma send_message_start_with_buffer:
  "send_message_start (with_buffer b s) = with_buffer b (send_message_start s)"
  by (simp add: send_message_start_def push_def with_buffer_def)

lemma handle_content_with_buffer:
  "handle_content (with_buffer b s) delta = with_buffer b (handle_content s delta)"
  by (simp add: handle_content_def Let_def push_def with_buffer_def)

lemma close_text_block_with_buffer:
  "close_text_block (with_buffer b s) = with_buffer b (close_text_block s)"
  by (simp add: close_text_block_def push_def with_buffer_def)

lemma accumulate_with_buffer: "accumulate now (with_buffer b s) tc = with_buffer b (accumulate now s tc)"
  by (simp add: accumulate_def Let_def with_buffer_def cong: option.case_cong)

lemma tool_calls_loop_with_buffer:
  "tool_calls_loop now (with_buffer b s) tcs
     = map_sum (with_buffer b) (with_buffer b) (tool_calls_loop now s tcs)"
  by (induction tcs arbitrary: s) (simp_all add: accumulate_with_buffer)

lemma handle_tool_calls_with_buffer:
  "handle_tool_calls now (with_buffer b s) delta
     = map_sum (with_buffer b) (with_buffer b) (handle_tool_calls now s delta)"
  by (simp add: handle_tool_calls_def Let_def close_text_block_with_buffer tool_calls_loop_with_buffer
      split: option.splits)

lemma handle_finish_with_buffer:
  "handle_finish (with_buffer b s) choice = with_buffer b (handle_finish s choice)"
  by (simp add: handle_finish_def Let_def close_text_block_with_buffer flush_tools_with_buffer
      with_buffer_updates)

lemma process_parsed_with_buffer:
  "process_parsed now (with_buffer b s) parsed = with_buffer b (process_parsed now s parsed)"
  by (simp add: process_parsed_def Let_def track_usage_with_buffer send_message_start_with_buffer
      handle_content_with_buffer handle_tool_calls_with_buffer handle_finish_with_buffer
      split: sum.splits)

lemma process_line_with_buffer:
  "process_line parse now (with_buffer b s) line = with_buffer b (process_line parse now s line)"
  by (simp add: process_line_def Let_def process_parsed_with_buffer split: option.splits)

lemma foldl_process_line_with_buffer:
  "foldl (process_line parse now) (with_buffer b s) ls
     = with_buffer b (foldl (process_line parse now) s ls)"
  by (induction ls arbitrary: s) (simp_all add: process_line_with_buffer)

lemma on_chunk_tail:
  assumes "CHR 0x0A \<notin> set t"
  shows "on_chunk parse now s (c @ t)
           = with_buffer (buffer (on_chunk parse now s c) @ t) (on_chunk parse now s c)"
proof -
  let ?L = "split_nl (buffer s @ c)"
  have lines: "split_nl (buffer s @ c @ t) = butlast ?L @ [last ?L @ t]"
    using split_nl_tail [OF assms, of "buffer s @ c"] by simp
  have "on_chunk parse now s (c @ t)
          = foldl (process_line parse now) (with_buffer (last ?L @ t) s) (butlast ?L)"
    by (simp add: on_chunk_def Let_def lines with_buffer_def)
  also have "\<dots> = with_buffer (last ?L @ t) (foldl (process_line parse now) s (butlast ?L))"
    by (rule foldl_process_line_with_buffer)
  also have "\<dots> = with_buffer (last ?L @ t)
                      (with_buffer (last ?L) (foldl (process_line parse now) s (butlast ?L)))"
    by simp
  also have "with_buffer (last ?L) (foldl (process_line parse now) s (butlast ?L))
               = foldl (process_line parse now) (with_buffer (last ?L) s) (butlast ?L)"
    by (rule foldl_process_line_with_buffer [symmetric])
  also have "\<dots> = on_chunk parse now s c"
    by (simp add: on_chunk_def Let_def with_buffer_def)
  finally show ?thesis
    by (simp add: on_chunk_buffer)
qed

lemma feed_tail:
  assumes "CHR 0x0A \<notin> set t"
  shows "pendingEvents (feed parse now s (chunks @ [c @ t]))
           = pendingEvents (feed parse now s (chunks @ [c]))"
proof (induction chunks arbitrary: s)
  case Nil
  show ?case
    by (simp add: on_chunk_tail [OF assms] end_of_stream_with_buffer Let_def)
next
  case (Cons chunk rest)
  then show ?case
    by (simp add: Let_def)
qed

subsection \<open>A chunk that is acted upon\<close>



lemma handle_finish_tokens [simp]:
  "inputTokens (handle_finish s choice) = inputTokens s"
  "outputTokens (handle_finish s choice) = outputTokens s"
  by (simp_all add: handle_finish_def Let_def)




section \<open>Substrings and the retry budget\<close>












section \<open>The outbound converter and the way back\<close>






























section \<open>Claims about the streaming translator\<close>

text \<open>
  Claim C1. The content-block indices of a session start at 0 and grow by one per opened block,
  and every block is opened, filled and closed once under its own index, on every
  termination path --- also when the byte stream ends without a finish reason while a text
  block is open. The source closes the text block with \<^verbatim>\<open>contentBlockIndex\<close> and increments
  it where a tool call or a finish reason arrives, but at the end of the byte stream it closes
  it with \<^verbatim>\<open>contentBlockIndex - 1\<close> and does not increment. A stream of one text delta that
  ends without a finish reason opens block 0 and then stops block \<open>-1\<close>: block 0 is never
  closed.
\<close>

theorem C1_text_block_stop_index_at_stream_end:
  "collect json_parse (\<lambda>n. 0) init_session
     [''data: {\"choices\":[{\"delta\":{\"content\":\"Hi\"}}]}'' @ newline]
   = [MessageStart ''assistant'',
      ContentBlockStart (StartText []) 0,
      ContentBlockDelta (DeltaText (JStr ''Hi'')) 0,
      ContentBlockStop (- 1),
      MessageStop ''end_turn'',
      Metadata (JNum 0) (JNum 0) 0]"
  by code_simp

text \<open>
  Claim C2. A session emits at most one \<open>MessageStart\<close>, exactly one \<open>MessageStop\<close> and
  exactly one \<open>Metadata\<close>, the last two being its final events, also when several data
  lines carry a finish reason. The source sets \<^verbatim>\<open>done = true\<close> at a finish reason but goes
  on with the remaining lines of the chunk it has read: two finish lines delivered in one
  chunk give two \<open>MessageStop\<close> and two \<open>Metadata\<close> events.
\<close>

theorem C2_two_finish_lines_in_one_chunk:
  "collect json_parse (\<lambda>n. 0) init_session
     [''data: {\"choices\":[{\"delta\":{},\"finish_reason\":\"stop\"}]}'' @ newline @
      ''data: {\"choices\":[{\"delta\":{},\"finish_reason\":\"stop\"}]}'' @ newline]
   = [MessageStart ''assistant'',
      MessageStop ''end_turn'', Metadata (JNum 0) (JNum 0) 0,
      MessageStop ''end_turn'', Metadata (JNum 0) (JNum 0) 0]"
  by code_simp

text \<open>
  Claim C3. A chunk that carries a usage object overwrites the token counters, also when its
  choices array is empty or absent, and the final \<open>Metadata\<close> carries the last such values.
  The source skips a chunk without a first choice before it reaches the lines under
  \<^verbatim>\<open>// Track usage if provided\<close>: the usage of such a chunk never reaches the counters.
\<close>

theorem C3_usage_of_chunk_without_choice_is_dropped:
  "collect json_parse (\<lambda>n. 0) init_session
     [''data: {\"choices\":[],\"usage\":{\"prompt_tokens\":7,\"completion_tokens\":3}}'' @ newline]
   = [MessageStop ''end_turn'', Metadata (JNum 0) (JNum 0) 0]"
  by code_simp




text \<open>
  Claim C9. Text left in the carry-over buffer when the byte stream ends is discarded
  unparsed. Whatever follows the last newline of the last chunk read --- a last chunk without
  a newline, or the tail of a last chunk after its complete lines --- and whatever
  \<^verbatim>\<open>JSON.parse\<close> would make of it, changes nothing in what the consumer receives: the
  session delivers the events, the closing ones with their token counts included, that it
  delivers when the stream ends without that text.
\<close>

theorem C9_trailing_partial_line_discarded:
  "CHR 0x0A \<notin> set t \<Longrightarrow>
   collect parse now init_session (chunks @ [t]) = collect parse now init_session chunks
   \<and> collect parse now init_session (chunks @ [c @ t]) = collect parse now init_session (chunks @ [c])"
proof -
  assume t: "CHR 0x0A \<notin> set t"
  have "\<not> done_flag init_session" and "CHR 0x0A \<notin> set (buffer init_session)"
    by (simp_all add: init_session_def)
  from feed_trailing_fragment [OF this t]
  have own: "collect parse now init_session (chunks @ [t]) = collect parse now init_session chunks"
    by (simp add: collect_init)
  have tail: "collect parse now init_session (chunks @ [c @ t])
                = collect parse now init_session (chunks @ [c])"
    by (simp add: collect_init feed_tail [OF t])
  show ?thesis
    by (intro conjI) (rule own, rule tail)
qed

theorem C9_trailing_partial_line_discarded_witness:
  "CHR 0x0A \<notin> set ''data: {\"choices\":[{\"delta\":{\"content\":\"lost\"}}],\"usage\":{\"prompt_tokens\":7}}''
   \<and> collect json_parse (\<lambda>n. 0) init_session
         ([''data: {\"choices\":[{\"delta\":{\"content\":\"Hi\"}}]}'' @ newline] @
          [''data: {\"choices\":[{\"delta\":{\"content\":\"lost\"}}],\"usage\":{\"prompt_tokens\":7}}''])
       = collect json_parse (\<lambda>n. 0) init_session
           [''data: {\"choices\":[{\"delta\":{\"content\":\"Hi\"}}]}'' @ newline]
   \<and> collect json_parse (\<lambda>n. 0) init_session
         [(''data: {\"choices\":[{\"delta\":{\"content\":\"Hi\"},\"finish_reason\":null}]}'' @ newline) @
          ''data: {\"choices\":[{\"delta\":{\"content\":\"lost\"}}],\"usage\":{\"prompt_tokens\":7}}'']
       = [MessageStart ''assistant'',
          ContentBlockStart (StartText []) 0,
          ContentBlockDelta (DeltaText (JStr ''Hi'')) 0,
          ContentBlockStop (- 1),
          MessageStop ''end_turn'',
          Metadata (JNum 0) (JNum 0) 0]"
proof -
  let ?t = "''data: {\"choices\":[{\"delta\":{\"content\":\"lost\"}}],\"usage\":{\"prompt_tokens\":7}}''"
  let ?c = "''data: {\"choices\":[{\"delta\":{\"content\":\"Hi\"},\"finish_reason\":null}]}'' @ newline"
  have h: "CHR 0x0A \<notin> set ?t"
    by simp
  note own = C9_trailing_partial_line_discarded [OF h, of json_parse "\<lambda>n. 0"
               "[''data: {\"choices\":[{\"delta\":{\"content\":\"Hi\"}}]}'' @ newline]", THEN conjunct1]
  have "collect json_parse (\<lambda>n. 0) init_session ([] @ [?c @ ?t])
          = collect json_parse (\<lambda>n. 0) init_session ([] @ [?c])"
    by (rule C9_trailing_partial_line_discarded [OF h, THEN conjunct2])
  then have same: "collect json_parse (\<lambda>n. 0) init_session [?c @ ?t]
                     = collect json_parse (\<lambda>n. 0) init_session [?c]"
    by (simp only: append_Nil)
  have alone: "collect json_parse (\<lambda>n. 0) init_session [?c]
       = [MessageStart ''assistant'',
          ContentBlockStart (StartText []) 0,
          ContentBlockDelta (DeltaText (JStr ''Hi'')) 0,
          ContentBlockStop (- 1),
          MessageStop ''end_turn'',
          Metadata (JNum 0) (JNum 0) 0]"
    by code_simp
  show ?thesis
    by (intro conjI) (rule h, rule own, rule same [unfolded alone])
qed

text \<open>
  Claim C10. A parsed chunk whose first choice is present but carries no delta only updates
  the token counters from its usage object, if it has one: the input counter becomes
  \<^verbatim>\<open>usage.prompt_tokens || 0\<close> and the output counter \<^verbatim>\<open>usage.completion_tokens || 0\<close>, and
  nothing else changes. A finish reason on such a chunk is not acted upon: no event is queued,
  the tool-call accumulators are not flushed and the session is not marked as finished, so
  that if the byte stream ends next the session closes with the stop reason \<^verbatim>\<open>end_turn\<close>
  and the updated counters.
\<close>

theorem C10_choice_without_delta:
  "truthy (index0 (dot parsed ''choices'')) \<Longrightarrow>
   \<not> truthy (dot (index0 (dot parsed ''choices'')) ''delta'') \<Longrightarrow>
   process_parsed now s parsed = track_usage s parsed
   \<and> pendingEvents (process_parsed now s parsed) = pendingEvents s
   \<and> toolCallAccumulator (process_parsed now s parsed) = toolCallAccumulator s
   \<and> done_flag (process_parsed now s parsed) = done_flag s
   \<and> (\<exists>pre. pendingEvents (end_of_stream (process_parsed now s parsed))
              = pre @ [MessageStop ''end_turn'',
                       Metadata (inputTokens (track_usage s parsed)) (outputTokens (track_usage s parsed)) 0])
   \<and> process_parsed now s parsed
       = (if truthy (dot parsed ''usage'')
          then s\<lparr> inputTokens := (if truthy (dot (dot parsed ''usage'') ''prompt_tokens'')
                                    then dot (dot parsed ''usage'') ''prompt_tokens'' else JNum 0),
                  outputTokens := (if truthy (dot (dot parsed ''usage'') ''completion_tokens'')
                                     then dot (dot parsed ''usage'') ''completion_tokens'' else JNum 0) \<rparr>
          else s)
   \<and> (\<exists>pre. pendingEvents (end_of_stream (process_parsed now s parsed))
              = pre @ [MessageStop ''end_turn'',
                       Metadata (inputTokens (process_parsed now s parsed))
                                (outputTokens (process_parsed now s parsed)) 0])"
proof -
  assume choice: "truthy (index0 (dot parsed ''choices''))"
    and delta: "\<not> truthy (dot (index0 (dot parsed ''choices'')) ''delta'')"
  from choice have "\<not> nullish parsed" by (rule truthy_choice_parsed)
  with choice delta have eq: "process_parsed now s parsed = track_usage s parsed"
    by (simp add: process_parsed_def Let_def)
  have p: "pendingEvents (track_usage s parsed) = pendingEvents s"
    and a: "toolCallAccumulator (track_usage s parsed) = toolCallAccumulator s"
    by (simp_all add: track_usage_def Let_def)
  have explicit: "track_usage s parsed
       = (if truthy (dot parsed ''usage'')
          then s\<lparr> inputTokens := (if truthy (dot (dot parsed ''usage'') ''prompt_tokens'')
                                    then dot (dot parsed ''usage'') ''prompt_tokens'' else JNum 0),
                  outputTokens := (if truthy (dot (dot parsed ''usage'') ''completion_tokens'')
                                     then dot (dot parsed ''usage'') ''completion_tokens'' else JNum 0) \<rparr>
          else s)"
    by (simp add: track_usage_def js_or_def Let_def)
  have closing: "\<exists>pre. pendingEvents (end_of_stream (track_usage s parsed))
              = pre @ [MessageStop ''end_turn'',
                       Metadata (inputTokens (track_usage s parsed)) (outputTokens (track_usage s parsed)) 0]"
    by (rule end_of_stream_tail)
  show ?thesis
    unfolding eq
    by (intro conjI) (rule refl, rule p, rule a, simp, rule closing, rule explicit, rule closing)
qed

theorem C10_choice_without_delta_witness:
  "process_parsed (\<lambda>n. 0) init_session
       (JObj [(''choices'', JArr [JObj [(''finish_reason'', JStr ''stop'')]]),
              (''usage'', JObj [(''prompt_tokens'', JNum 100), (''completion_tokens'', JNum 50)])])
     = init_session\<lparr> inputTokens := JNum 100, outputTokens := JNum 50 \<rparr>
   \<and> (\<exists>pre. pendingEvents (end_of_stream (process_parsed (\<lambda>n. 0) init_session
         (JObj [(''choices'', JArr [JObj [(''finish_reason'', JStr ''stop'')]]),
                (''usage'', JObj [(''prompt_tokens'', JNum 100), (''completion_tokens'', JNum 50)])])))
        = pre @ [MessageStop ''end_turn'', Metadata (JNum 100) (JNum 50) 0])
   \<and> collect json_parse (\<lambda>n. 0) init_session
        [''data: {\"choices\":[{\"finish_reason\":\"stop\"}],\"usage\":{\"prompt_tokens\":100,\"completion_tokens\":50}}'' @ newline]
     = [MessageStop ''end_turn'', Metadata (JNum 100) (JNum 50) 0]
   \<and> collect json_parse (\<lambda>n. 0) init_session
        [''data: {\"choices\":[{\"index\":0}],\"usage\":{\"prompt_tokens\":100}}'' @ newline]
     = [MessageStop ''end_turn'', Metadata (JNum 100) (JNum 0) 0]"
proof -
  let ?parsed = "JObj [(''choices'', JArr [JObj [(''finish_reason'', JStr ''stop'')]]),
                       (''usage'', JObj [(''prompt_tokens'', JNum 100), (''completion_tokens'', JNum 50)])]"
  have a: "truthy (index0 (dot ?parsed ''choices''))"
    by (simp add: lookup_def)
  have b: "\<not> truthy (dot (index0 (dot ?parsed ''choices'')) ''delta'')"
    by (simp add: lookup_def)
  note r = C10_choice_without_delta [OF a b, of "\<lambda>n. 0" init_session]
  note explicit = r [THEN conjunct2, THEN conjunct2, THEN conjunct2, THEN conjunct2, THEN conjunct2,
                     THEN conjunct1]
  have r1: "process_parsed (\<lambda>n. 0) init_session ?parsed
              = init_session\<lparr> inputTokens := JNum 100, outputTokens := JNum 50 \<rparr>"
    using explicit by (simp add: lookup_def)
  note closing = r [THEN conjunct2, THEN conjunct2, THEN conjunct2, THEN conjunct2, THEN conjunct2,
                    THEN conjunct2]
  have tokens: "inputTokens (process_parsed (\<lambda>n. 0) init_session ?parsed) = JNum 100"
    "outputTokens (process_parsed (\<lambda>n. 0) init_session ?parsed) = JNum 50"
    by (simp_all add: r1)
  have r2: "\<exists>pre. pendingEvents (end_of_stream (process_parsed (\<lambda>n. 0) init_session ?parsed))
                 = pre @ [MessageStop ''end_turn'', Metadata (JNum 100) (JNum 50) 0]"
    using closing by (simp only: tokens)
  have run: "collect json_parse (\<lambda>n. 0) init_session
        [''data: {\"choices\":[{\"finish_reason\":\"stop\"}],\"usage\":{\"prompt_tokens\":100,\"completion_tokens\":50}}'' @ newline]
     = [MessageStop ''end_turn'', Metadata (JNum 100) (JNum 50) 0]"
    by code_simp
  have partial: "collect json_parse (\<lambda>n. 0) init_session
        [''data: {\"choices\":[{\"index\":0}],\"usage\":{\"prompt_tokens\":100}}'' @ newline]
     = [MessageStop ''end_turn'', Metadata (JNum 100) (JNum 0) 0]"
    by code_simp
  show ?thesis
    by (intro conjI) (rule r1, rule r2, rule run, rule partial)
qed

section \<open>Claims about the request builder and the dispatcher\<close>

text \<open>
  Claim C8. The request builder copies \<^verbatim>\<open>maxTokens\<close>, \<^verbatim>\<open>temperature\<close> and \<^verbatim>\<open>topP\<close>
  exactly when each is defined, a defined 0 included. The source tests \<^verbatim>\<open>temperature\<close> and
  \<^verbatim>\<open>topP\<close> with \<^verbatim>\<open>!== undefined\<close> but \<^verbatim>\<open>maxTokens\<close> by truthiness: of three fields that
  are all 0, the two are copied and \<^verbatim>\<open>max_tokens\<close> is left out.
\<close>

theorem C8_zero_maxTokens_is_omitted:
  "(let request = buildOpenAIRequest json_stringify (\<lambda>n. 0)
        \<lparr> modelId = ''m'', messages = [], system = None, toolConfig = None,
          inferenceConfig = Some \<lparr> maxTokens = Some 0, temperature = Some 0, topP = Some 0 \<rparr>,
          stream = None \<rparr>
    in max_tokens request = None \<and> req_temperature request = Some 0 \<and> top_p request = Some 0)"
  by code_simp


section \<open>Claims about the outbound converter\<close>







end
